theory Spec2Isabelle
  imports Main "HOL-Library.AList"
begin

section \<open>Story index to Playwright test programs (transformPlaywrightJson)\<close>

text \<open>
  A shallow embedding of the module that turns a Storybook story index (schema version 3
  or 4) into one generated test file per component.

  Three collaborators of the module are imported from elsewhere and are not part of the
  embedded source. They appear as parameters of the functions below:
  \<^item> \<open>toId\<close> (package @storybook/csf) maps a component title to its identifier and
    throws on a title it cannot sanitise, so its result is a sum;
  \<^item> \<open>generate\<close> (package @babel/generator) renders a syntax tree to program text;
  \<^item> \<open>getTagOptions\<close> (../util/getTagOptions) reads the tag policy, a record of three
    tag arrays, from the state of the running process. \<open>transformPlaywrightJson\<close> below
    takes the record it returns; \<open>invoke\<close> is the call in a process state.
\<close>

subsection \<open>Values, errors and JavaScript objects\<close>

text \<open>
  The safe integers of JavaScript, \<open>-(2^53 - 1) .. 2^53 - 1\<close>: the numbers that are integers
  and that a template literal prints as their full decimal expansion.
\<close>

typedef safeInt = "{n :: int. - 9007199254740991 \<le> n \<and> n \<le> 9007199254740991}"
  morphisms intOf SafeInt
  by (rule exI [of _ 0]) simp

text \<open>
  The index is an untyped \<open>Record<string, any>\<close> parsed from JSON; its field \<open>v\<close> may hold
  any value or be absent. The function compares \<open>index.v\<close> with the numbers 3 and 4 and
  otherwise converts it to a string, so a value is one of
  \<^item> \<open>undefined\<close> (the field is absent), \<open>null\<close>, a boolean, a string,
  \<^item> a number that is a safe integer (a JSON \<open>3.0\<close> is the number 3),
  \<^item> anything else (a number that is not a safe integer, an array, an object):
    \<open>JOther s\<close>, where \<open>s\<close> is the text the string conversion of the value yields, the one
    thing the function reads from such a value.
\<close>

datatype jsval =
    JUndefined | JNull | JBool bool | JNumber safeInt | JString string | JOther string

datatype error = Error string | TypeError string

text \<open>
  A JavaScript object used as a dictionary is an association list with distinct keys, in
  insertion order. \<open>acc[k] = x\<close> is \<open>AList.update k x acc\<close>, \<open>acc[k]\<close> is \<open>map_of acc k\<close>.
  (The special enumeration position of integer-like keys is not modelled; every statement
  below reads the objects by key.)
\<close>

type_synonym 'a Record = "(string \<times> 'a) list"

definition Object_values :: "'a Record \<Rightarrow> 'a list" where
  "Object_values obj = map snd obj"

text \<open>
  The property names every object literal \<open>{}\<close> inherits from \<open>Object.prototype\<close>. Reading
  such a key from a fresh \<open>{}\<close> yields the inherited member instead of \<open>undefined\<close>.
\<close>

definition objectPrototypeKeys :: "string list" where
  "objectPrototypeKeys =
     [''constructor'', ''hasOwnProperty'', ''isPrototypeOf'', ''propertyIsEnumerable'',
      ''toLocaleString'', ''toString'', ''valueOf'', ''__proto__'', ''__defineGetter__'',
      ''__defineSetter__'', ''__lookupGetter__'', ''__lookupSetter__'']"

text \<open>Decimal rendering of a number inside a template literal.\<close>

definition digitChar :: "nat \<Rightarrow> char" where
  "digitChar d = ''0123456789'' ! d"

function natToString :: "nat \<Rightarrow> string" where
  "natToString n =
     (if n < 10 then [digitChar n]
      else natToString (n div 10) @ [digitChar (n mod 10)])"
  by pat_completeness auto
termination
  by (relation "measure (\<lambda>n. n)") auto

declare natToString.simps [simp del]

text \<open>The string conversion a template literal \<open>`${x}`\<close> applies to \<open>x\<close>.\<close>

fun ToString :: "jsval \<Rightarrow> string" where
  "ToString JUndefined = ''undefined''"
| "ToString JNull = ''null''"
| "ToString (JBool b) = (if b then ''true'' else ''false'')"
| "ToString (JNumber n) =
     (if intOf n < 0 then ''-'' @ natToString (nat (- intOf n)) else natToString (nat (intOf n)))"
| "ToString (JString s) = s"
| "ToString (JOther s) = s"




subsection \<open>The data model of the index\<close>

type_synonym StoryId = string
type_synonym StoryName = string
type_synonym ComponentTitle = string

datatype entryType = Story | Docs

text \<open>
  \<open>V4Entry\<close> is \<open>{type?, id, name, title, tags}\<close> and \<open>V3Story\<close> is
  \<open>Omit<V4Entry, 'type'> & {parameters?}\<close>: both extend the four shared fields. The source
  reads \<open>story.tags?.includes\<close>, so \<open>tags\<close> may be absent at run time: \<open>None\<close> is
  \<open>undefined\<close>.
\<close>

record StoryBase =
  id' :: StoryId
  name :: StoryName
  title :: ComponentTitle
  tags :: "string list option"

record V4Entry = StoryBase +
  type' :: "entryType option"

record V3Story = StoryBase +
  parameters :: "(string \<times> jsval) list option"

text \<open>
  The argument of \<open>transformPlaywrightJson\<close>: \<open>index.v\<close>, and the two members the casts to
  \<open>V3StoriesIndex\<close> and \<open>V4Index\<close> read (\<open>None\<close> when the member is missing).
\<close>

record index =
  v :: jsval
  stories :: "V3Story Record option"
  entries :: "V4Entry Record option"

record tagOptions =
  includeTags :: "string list"
  excludeTags :: "string list"
  skipTags :: "string list"

subsection \<open>Syntax trees\<close>

text \<open>
  The nodes of @babel/types the module builds. \<open>TestBody\<close> stands for the expression of the
  second statement of the \<open>testPrefixer\<close> template with its four placeholders filled in,
  \<open>TestLog\<close> for the expression of its first statement.
\<close>

datatype node =
    StringLiteral string
  | Identifier string
  | CallExpression node "node list"
  | ArrowFunctionExpression "node list" node
  | BlockStatement "node list"
  | ExpressionStatement (expression: node)
  | Program "node list"
  | TestLog node node node node
  | TestBody node node node node

text \<open>
  Modelled from the spec: \<open>testPrefixer\<close> of ./transformPlaywright is missing from the
  sources. The spec says of the test case body that it "must reference the story by its
  stable id and pass through title/name/id as literal data": the template yields a list of
  statements whose second one is an expression statement holding the \<open>name\<close>, \<open>title\<close>,
  \<open>id\<close> and \<open>storyExport\<close> nodes it was given.
\<close>

definition testPrefixer :: "node \<Rightarrow> node \<Rightarrow> node \<Rightarrow> node \<Rightarrow> node list" where
  "testPrefixer nameN titleN idN storyExportN =
     [ExpressionStatement (TestLog nameN titleN idN storyExportN),
      ExpressionStatement (TestBody nameN titleN idN storyExportN)]"

subsection \<open>Helpers of the source\<close>

text \<open>
  \<open>story.tags?.includes(tag)\<close>: \<open>undefined\<close> when the tags are absent. \<open>truthy\<close> is the
  coercion \<open>some\<close>, \<open>!\<close> and \<open>!!\<close> apply to such a value.
\<close>

definition tags_includes :: "'a StoryBase_scheme \<Rightarrow> string \<Rightarrow> bool option" where
  "tags_includes s tag = (case tags s of None \<Rightarrow> None | Some ts \<Rightarrow> Some (tag \<in> set ts))"

definition truthy :: "bool option \<Rightarrow> bool" where
  "truthy b = (b = Some True)"

definition makeTest :: "V4Entry \<Rightarrow> bool \<Rightarrow> bool option \<Rightarrow> node" where
  "makeTest entry shouldSkip metaOrStoryPlay =
     (let result = testPrefixer (StringLiteral (name entry)) (StringLiteral (title entry))
                     (StringLiteral (id' entry)) (Identifier (id' entry));
          stmt = result ! 1
      in ExpressionStatement
           (CallExpression (if shouldSkip then Identifier ''it.skip'' else Identifier ''it'')
              [StringLiteral (if truthy metaOrStoryPlay then ''play-test'' else ''smoke-test''),
               expression stmt]))"

definition makeDescribe :: "string \<Rightarrow> node list \<Rightarrow> node" where
  "makeDescribe ttl stmts =
     ExpressionStatement
       (CallExpression (Identifier ''describe'')
          [StringLiteral ttl, ArrowFunctionExpression [] (BlockStatement stmts)])"

definition isV3DocsOnly :: "V3Story list \<Rightarrow> bool" where
  "isV3DocsOnly ss = (length ss = 1 \<and> name (ss ! 0) = ''Page'')"

definition v3TitleMapToV4TitleMap :: "V3Story list Record \<Rightarrow> V4Entry list Record" where
  "v3TitleMapToV4TitleMap titleIdToStories =
     map (\<lambda>(i, ss).
            (i, map (\<lambda>s. \<lparr>id' = id' s, name = name s, title = title s, tags = tags s,
                          type' = Some (if isV3DocsOnly ss then Docs else Story)\<rparr>) ss))
         titleIdToStories"

text \<open>
  \<open>groupByTitleId\<close> reduces over the entries with an accumulator object that starts as
  \<open>{}\<close>. One step: \<open>toId\<close> may throw; \<open>acc[titleId] || []\<close> finds an inherited member
  when \<open>titleId\<close> names one, and the \<open>push\<close> on it then throws a TypeError; otherwise
  the entry is appended to the array under \<open>titleId\<close>.
\<close>

definition groupStep ::
  "(string \<Rightarrow> error + string) \<Rightarrow> ('a StoryBase_scheme) list Record \<Rightarrow> 'a StoryBase_scheme
     \<Rightarrow> error + ('a StoryBase_scheme) list Record" where
  "groupStep toId acc entry =
     (case toId (title entry) of
        Inl e \<Rightarrow> Inl e
      | Inr titleId \<Rightarrow>
          if titleId \<in> set objectPrototypeKeys
          then Inl (TypeError ''acc[titleId].push is not a function'')
          else Inr (AList.update titleId
                      ((case map_of acc titleId of None \<Rightarrow> [] | Some xs \<Rightarrow> xs) @ [entry]) acc))"

fun groupReduce ::
  "(string \<Rightarrow> error + string) \<Rightarrow> ('a StoryBase_scheme) list \<Rightarrow> ('a StoryBase_scheme) list Record
     \<Rightarrow> error + ('a StoryBase_scheme) list Record" where
  "groupReduce toId [] acc = Inr acc"
| "groupReduce toId (entry # rest) acc =
     (case groupStep toId acc entry of
        Inl e \<Rightarrow> Inl e
      | Inr acc' \<Rightarrow> groupReduce toId rest acc')"

definition groupByTitleId ::
  "(string \<Rightarrow> error + string) \<Rightarrow> ('a StoryBase_scheme) list
     \<Rightarrow> error + ('a StoryBase_scheme) list Record" where
  "groupByTitleId toId es = groupReduce toId es []"

subsection \<open>transformPlaywrightJson\<close>

text \<open>The version dispatch that computes the local \<open>titleIdToEntries\<close>.\<close>

definition titleIdToEntries ::
  "(string \<Rightarrow> error + string) \<Rightarrow> index \<Rightarrow> error + V4Entry list Record" where
  "titleIdToEntries toId idx =
     (if v idx = JNumber (SafeInt 3) then
        (case stories idx of
           None \<Rightarrow> Inl (TypeError ''Cannot convert undefined or null to object'')
         | Some ss \<Rightarrow>
             (case groupByTitleId toId (Object_values ss) of
                Inl e \<Rightarrow> Inl e
              | Inr titleIdToStories \<Rightarrow> Inr (v3TitleMapToV4TitleMap titleIdToStories)))
      else if v idx = JNumber (SafeInt 4) then
        (case entries idx of
           None \<Rightarrow> Inl (TypeError ''Cannot convert undefined or null to object'')
         | Some es \<Rightarrow> groupByTitleId toId (Object_values es))
      else Inl (Error (''Unsupported version '' @ ToString (v idx))))"

text \<open>The callbacks of the per-group pipeline, named after the locals they compute.\<close>

definition isIncluded :: "tagOptions \<Rightarrow> V4Entry \<Rightarrow> bool" where
  "isIncluded opts s =
     (length (includeTags opts) = 0
      \<or> list_ex (\<lambda>tag. truthy (tags_includes s tag)) (includeTags opts))"

definition isNotExcluded :: "tagOptions \<Rightarrow> V4Entry \<Rightarrow> bool" where
  "isNotExcluded opts s =
     list_all (\<lambda>tag. \<not> truthy (tags_includes s tag)) (excludeTags opts)"

definition shouldSkip :: "tagOptions \<Rightarrow> V4Entry \<Rightarrow> bool" where
  "shouldSkip opts s = list_ex (\<lambda>tag. truthy (tags_includes s tag)) (skipTags opts)"

text \<open>
  The locals of the reduce callback, in the order the source computes them: \<open>stories\<close>
  (the entries that are not docs), the result of the tag \<open>filter\<close>, the callback of the
  \<open>map\<close> that builds one \<open>describe\<close> block per story, \<open>storyTests\<close> and \<open>program\<close>.
\<close>

definition storiesOf :: "V4Entry list \<Rightarrow> V4Entry list" where
  "storiesOf es = filter (\<lambda>s. type' s \<noteq> Some Docs) es"

definition selected :: "tagOptions \<Rightarrow> V4Entry list \<Rightarrow> V4Entry list" where
  "selected opts ss = filter (\<lambda>s. isIncluded opts s \<and> isNotExcluded opts s) ss"

definition storyTest :: "tagOptions \<Rightarrow> V4Entry \<Rightarrow> node" where
  "storyTest opts s =
     makeDescribe (name s) [makeTest s (shouldSkip opts s) (tags_includes s ''play-fn'')]"

definition storyTests :: "tagOptions \<Rightarrow> V4Entry list \<Rightarrow> node list" where
  "storyTests opts ss = map (storyTest opts) (selected opts ss)"

definition program :: "tagOptions \<Rightarrow> V4Entry list \<Rightarrow> node" where
  "program opts ss = Program [makeDescribe (title (ss ! 0)) (storyTests opts ss)]"

text \<open>The body of the reduce that builds \<open>titleIdToTest\<close>.\<close>

definition testStep ::
  "(node \<Rightarrow> string) \<Rightarrow> tagOptions \<Rightarrow> string Record \<Rightarrow> string \<times> V4Entry list \<Rightarrow> string Record" where
  "testStep generate opts acc p =
     (case p of (titleId, es) \<Rightarrow>
        (let ss = storiesOf es in
         if length ss \<noteq> 0 then
           (let code = generate (program opts ss)
            in AList.update titleId code acc)
         else acc))"

definition transformPlaywrightJson ::
  "(string \<Rightarrow> error + string) \<Rightarrow> (node \<Rightarrow> string) \<Rightarrow> tagOptions \<Rightarrow> index
     \<Rightarrow> error + string Record" where
  "transformPlaywrightJson toId generate opts idx =
     (case titleIdToEntries toId idx of
        Inl e \<Rightarrow> Inl e
      | Inr t \<Rightarrow> Inr (foldl (testStep generate opts) [] t))"


subsection \<open>Stand-ins for the external collaborators in closed examples\<close>

text \<open>
  \<open>sampleToId\<close> lower-cases ASCII letters and rejects the empty title; on a title made of
  ASCII letters and digits this is what \<open>toId\<close> returns.
\<close>

definition lowerChar :: "char \<Rightarrow> char" where
  "lowerChar c =
     (case map_of (zip ''ABCDEFGHIJKLMNOPQRSTUVWXYZ'' ''abcdefghijklmnopqrstuvwxyz'') c of
        None \<Rightarrow> c | Some d \<Rightarrow> d)"

definition sampleToId :: "string \<Rightarrow> error + string" where
  "sampleToId t =
     (if t = [] then Inl (Error ''Invalid kind, must include alphanumeric characters'')
      else Inr (map lowerChar t))"




text \<open>\<open>sampleGenerate\<close> prints a tree on one line, a string literal between angle brackets.\<close>

fun sampleGenerate :: "node \<Rightarrow> string" where
  "sampleGenerate (StringLiteral s) = ''<'' @ s @ ''>''"
| "sampleGenerate (Identifier x) = x"
| "sampleGenerate (CallExpression f args) =
     sampleGenerate f @ ''('' @ concat (map (\<lambda>a. sampleGenerate a @ '','') args) @ '')''"
| "sampleGenerate (ArrowFunctionExpression ps b) =
     ''('' @ concat (map (\<lambda>a. sampleGenerate a @ '','') ps) @ '')=>'' @ sampleGenerate b"
| "sampleGenerate (BlockStatement ss) = ''{'' @ concat (map sampleGenerate ss) @ ''}''"
| "sampleGenerate (ExpressionStatement e) = sampleGenerate e @ '';''"
| "sampleGenerate (Program ss) = concat (map sampleGenerate ss)"
| "sampleGenerate (TestLog n t i x) =
     ''log('' @ sampleGenerate n @ '','' @ sampleGenerate t @ '','' @ sampleGenerate i @ '',''
       @ sampleGenerate x @ '')''"
| "sampleGenerate (TestBody n t i x) =
     ''run('' @ sampleGenerate n @ '','' @ sampleGenerate t @ '','' @ sampleGenerate i @ '',''
       @ sampleGenerate x @ '')''"

subsection \<open>Tag sets\<close>

text \<open>
  The tag set the spec speaks of: the set of the entry's tags, empty when the field is absent.
\<close>

abbreviation tagSet :: "'a StoryBase_scheme \<Rightarrow> string set" where
  "tagSet s \<equiv> (case tags s of None \<Rightarrow> {} | Some ts \<Rightarrow> set ts)"

subsection \<open>Example data\<close>

definition primaryEntry :: V4Entry where
  "primaryEntry = \<lparr>id' = ''button--primary'', name = ''Primary'', title = ''Button'',
                    tags = Some [''play-fn''], type' = Some Story\<rparr>"

definition secondaryEntry :: V4Entry where
  "secondaryEntry = \<lparr>id' = ''button--secondary'', name = ''Secondary'', title = ''Button'',
                      tags = Some [], type' = None\<rparr>"

definition docsEntry :: V4Entry where
  "docsEntry = \<lparr>id' = ''button--docs'', name = ''Docs'', title = ''Button'',
                 tags = Some [''play-fn''], type' = Some Docs\<rparr>"

definition untaggedEntry :: V4Entry where
  "untaggedEntry = \<lparr>id' = ''button--plain'', name = ''Plain'', title = ''Button'',
                     tags = None, type' = Some Story\<rparr>"

definition buttonIndex :: index where
  "buttonIndex = \<lparr>v = JNumber (SafeInt 4), stories = None,
                   entries = Some [(''button--primary'', primaryEntry),
                                   (''button--secondary'', secondaryEntry),
                                   (''button--docs'', docsEntry),
                                   (''button--plain'', untaggedEntry)]\<rparr>"

definition pageStory :: V3Story where
  "pageStory = \<lparr>id' = ''intro--page'', name = ''Page'', title = ''Intro'',
                 tags = Some [''play-fn''], parameters = None\<rparr>"

definition pageIndex :: index where
  "pageIndex = \<lparr>v = JNumber (SafeInt 3), stories = Some [(''intro--page'', pageStory)], entries = None\<rparr>"

definition noTags :: tagOptions where
  "noTags = \<lparr>includeTags = [], excludeTags = [], skipTags = []\<rparr>"

definition excludePlay :: tagOptions where
  "excludePlay = \<lparr>includeTags = [''play-fn''], excludeTags = [''play-fn''], skipTags = []\<rparr>"

definition skipPlay :: tagOptions where
  "skipPlay = \<lparr>includeTags = [], excludeTags = [], skipTags = [''play-fn'']\<rparr>"

section \<open>Properties\<close>

subsection \<open>Safe integers and decimal text\<close>

lemma intOf_SafeInt [simp]:
  "- 9007199254740991 \<le> n \<Longrightarrow> n \<le> 9007199254740991 \<Longrightarrow> intOf (SafeInt n) = n"
  by (simp add: SafeInt_inverse)

lemma SafeInt_eq_iff [simp]:
  "- 9007199254740991 \<le> m \<Longrightarrow> m \<le> 9007199254740991 \<Longrightarrow>
   - 9007199254740991 \<le> n \<Longrightarrow> n \<le> 9007199254740991 \<Longrightarrow>
   SafeInt m = SafeInt n \<longleftrightarrow> m = n"
  by (simp add: SafeInt_inject)

lemma intOf_range: "\<bar>intOf n\<bar> \<le> 9007199254740991"
  using intOf [of n] by auto











subsection \<open>Grouping and the result mapping\<close>

lemma groupReduce_lookup:
  "groupReduce toId xs acc = Inr g \<Longrightarrow>
   map_of g k =
     (case map_of acc k of
        None \<Rightarrow> (if filter (\<lambda>e. toId (title e) = Inr k) xs = [] then None
                 else Some (filter (\<lambda>e. toId (title e) = Inr k) xs))
      | Some old \<Rightarrow> Some (old @ filter (\<lambda>e. toId (title e) = Inr k) xs))"
proof (induction xs arbitrary: acc)
  case Nil
  then show ?case by (simp split: option.splits)
next
  case (Cons x xs)
  from Cons.prems obtain acc' where st: "groupStep toId acc x = Inr acc'"
    and rest: "groupReduce toId xs acc' = Inr g"
    by (auto split: sum.splits)
  from st obtain i where i: "toId (title x) = Inr i"
    and acc': "acc' = AList.update i ((case map_of acc i of None \<Rightarrow> [] | Some ys \<Rightarrow> ys) @ [x]) acc"
    by (auto simp: groupStep_def split: sum.splits if_splits)
  show ?case
    using Cons.IH [OF rest] i
    by (auto simp: acc' update_conv' split: option.splits)
qed

lemma groupReduce_distinct:
  "groupReduce toId xs acc = Inr g \<Longrightarrow> distinct (map fst acc) \<Longrightarrow> distinct (map fst g)"
proof (induction xs arbitrary: acc)
  case Nil
  then show ?case by simp
next
  case (Cons x xs)
  from Cons.prems(1) obtain acc' where st: "groupStep toId acc x = Inr acc'"
    and rest: "groupReduce toId xs acc' = Inr g"
    by (auto split: sum.splits)
  from st Cons.prems(2) have "distinct (map fst acc')"
    by (auto simp: groupStep_def distinct_update split: sum.splits if_splits)
  with Cons.IH rest show ?case by blast
qed

lemma groupByTitleId_lookup:
  "groupByTitleId toId xs = Inr g \<Longrightarrow>
   map_of g k = (if filter (\<lambda>e. toId (title e) = Inr k) xs = [] then None
                 else Some (filter (\<lambda>e. toId (title e) = Inr k) xs))"
  unfolding groupByTitleId_def by (drule groupReduce_lookup [where k = k]) simp

lemma groupByTitleId_distinct:
  "groupByTitleId toId xs = Inr g \<Longrightarrow> distinct (map fst g)"
  unfolding groupByTitleId_def by (drule groupReduce_distinct) simp_all

lemma v3TitleMap_keys: "map fst (v3TitleMapToV4TitleMap g) = map fst g"
  by (induction g) (auto simp: v3TitleMapToV4TitleMap_def)

lemma v3TitleMap_lookup:
  "map_of (v3TitleMapToV4TitleMap g) k =
     map_option (\<lambda>ss. map (\<lambda>s. \<lparr>id' = id' s, name = name s, title = title s, tags = tags s,
                          type' = Some (if isV3DocsOnly ss then Docs else Story)\<rparr>) ss) (map_of g k)"
  by (induction g) (auto simp: v3TitleMapToV4TitleMap_def)

lemma foldl_testStep_lookup:
  "distinct (map fst t) \<Longrightarrow>
   map_of (foldl (testStep generate opts) acc t) k =
     (case map_of t k of
        None \<Rightarrow> map_of acc k
      | Some es \<Rightarrow> (if storiesOf es = [] then map_of acc k
                    else Some (generate (program opts (storiesOf es)))))"
proof (induction t arbitrary: acc)
  case Nil
  then show ?case by simp
next
  case (Cons p t)
  obtain i es where p: "p = (i, es)" by (cases p)
  from Cons.prems have d: "distinct (map fst t)" and notin: "i \<notin> fst ` set t"
    by (auto simp: p)
  from notin have none: "map_of t i = None"
    by (simp add: map_of_eq_None_iff)
  show ?case
    using Cons.IH [OF d, of "testStep generate opts acc p"] none
    by (auto simp: p testStep_def Let_def update_conv' split: option.splits)
qed

lemma titleIdToEntries_distinct:
  "titleIdToEntries toId idx = Inr t \<Longrightarrow> distinct (map fst t)"
  by (auto simp: titleIdToEntries_def v3TitleMap_keys
           dest: groupByTitleId_distinct split: if_splits option.splits sum.splits)

lemma transform_Inr:
  "titleIdToEntries toId idx = Inr t \<Longrightarrow>
   transformPlaywrightJson toId generate opts idx = Inr (foldl (testStep generate opts) [] t)"
  by (simp add: transformPlaywrightJson_def)

lemma transform_lookup:
  assumes "titleIdToEntries toId idx = Inr t"
  shows "\<exists>out. transformPlaywrightJson toId generate opts idx = Inr out \<and>
           (\<forall>k. map_of out k =
             (case map_of t k of
                None \<Rightarrow> None
              | Some es \<Rightarrow> (if storiesOf es = [] then None
                            else Some (generate (program opts (storiesOf es))))))"
  using assms foldl_testStep_lookup [OF titleIdToEntries_distinct [OF assms], of generate opts "[]"]
  by (simp add: transform_Inr split: option.splits)

lemma titleIdToEntries_v4:
  assumes "v idx = JNumber (SafeInt 4)" "entries idx = Some ents" "titleIdToEntries toId idx = Inr t"
  shows "map_of t k =
           (if filter (\<lambda>e. toId (title e) = Inr k) (Object_values ents) = [] then None
            else Some (filter (\<lambda>e. toId (title e) = Inr k) (Object_values ents)))"
  using assms by (simp add: titleIdToEntries_def groupByTitleId_lookup)

lemma titleIdToEntries_v3:
  assumes "v idx = JNumber (SafeInt 3)" "stories idx = Some sts" "titleIdToEntries toId idx = Inr t"
  shows "map_of t k =
           (if filter (\<lambda>e. toId (title e) = Inr k) (Object_values sts) = [] then None
            else Some (map (\<lambda>s. \<lparr>id' = id' s, name = name s, title = title s, tags = tags s,
                          type' = Some (if isV3DocsOnly (filter (\<lambda>e. toId (title e) = Inr k) (Object_values sts)) then Docs else Story)\<rparr>)
                  (filter (\<lambda>e. toId (title e) = Inr k) (Object_values sts))))"
  using assms
  by (auto simp: titleIdToEntries_def v3TitleMap_lookup groupByTitleId_lookup split: sum.splits)

text \<open>
  The version dispatch succeeds as soon as the member the version selects is present and
  \<open>toId\<close> maps every title to an identifier that is not an inherited property name.
\<close>

lemma groupReduce_succeeds:
  "\<forall>e\<in>set xs. \<exists>i. toId (title e) = Inr i \<and> i \<notin> set objectPrototypeKeys \<Longrightarrow>
   \<exists>g. groupReduce toId xs acc = Inr g"
proof (induction xs arbitrary: acc)
  case Nil
  then show ?case by simp
next
  case (Cons x xs)
  from Cons.prems obtain i where "toId (title x) = Inr i" "i \<notin> set objectPrototypeKeys"
    by auto
  then obtain acc' where "groupStep toId acc x = Inr acc'"
    by (simp add: groupStep_def)
  moreover from Cons.IH [of acc'] Cons.prems obtain g where "groupReduce toId xs acc' = Inr g"
    by auto
  ultimately show ?case by simp
qed

lemma titleIdToEntries_succeeds_v4:
  assumes "v idx = JNumber (SafeInt 4)" "entries idx = Some ents"
    and "\<forall>e\<in>set (Object_values ents). \<exists>i. toId (title e) = Inr i \<and> i \<notin> set objectPrototypeKeys"
  shows "\<exists>t. titleIdToEntries toId idx = Inr t"
  using assms(1,2) groupReduce_succeeds [OF assms(3), of "[]"]
  by (auto simp: titleIdToEntries_def groupByTitleId_def)

lemma titleIdToEntries_succeeds_v3:
  assumes "v idx = JNumber (SafeInt 3)" "stories idx = Some sts"
    and "\<forall>e\<in>set (Object_values sts). \<exists>i. toId (title e) = Inr i \<and> i \<notin> set objectPrototypeKeys"
  shows "\<exists>t. titleIdToEntries toId idx = Inr t"
  using assms(1,2) groupReduce_succeeds [OF assms(3), of "[]"]
  by (auto simp: titleIdToEntries_def groupByTitleId_def)

subsection \<open>Evaluation of the examples\<close>

lemma sampleToId_Button: "sampleToId ''Button'' = Inr ''button''"
  by (simp add: sampleToId_def lowerChar_def)

lemma sampleToId_Intro: "sampleToId ''Intro'' = Inr ''intro''"
  by (simp add: sampleToId_def lowerChar_def)

lemma sample_ids_not_inherited:
  "''button'' \<notin> set objectPrototypeKeys" "''intro'' \<notin> set objectPrototypeKeys"
  by (simp_all add: objectPrototypeKeys_def)

lemma buttonIndex_groups:
  "titleIdToEntries sampleToId buttonIndex =
     Inr [(''button'', [primaryEntry, secondaryEntry, docsEntry, untaggedEntry])]"
  by (simp add: titleIdToEntries_def groupByTitleId_def groupStep_def Object_values_def
        buttonIndex_def primaryEntry_def secondaryEntry_def docsEntry_def untaggedEntry_def
        sampleToId_Button sample_ids_not_inherited)

lemma pageIndex_groups:
  "titleIdToEntries sampleToId pageIndex =
     Inr [(''intro'', [\<lparr>id' = ''intro--page'', name = ''Page'', title = ''Intro'',
                 tags = Some [''play-fn''], type' = Some Docs\<rparr>])]"
  by (simp add: titleIdToEntries_def groupByTitleId_def groupStep_def Object_values_def
        pageIndex_def pageStory_def v3TitleMapToV4TitleMap_def isV3DocsOnly_def
        sampleToId_Intro sample_ids_not_inherited)

subsection \<open>The tag policy in terms of sets\<close>

lemma truthy_tags_includes: "truthy (tags_includes s tag) \<longleftrightarrow> tag \<in> tagSet s"
  by (simp add: truthy_def tags_includes_def split: option.splits)

lemma isIncluded_iff:
  "isIncluded opts s \<longleftrightarrow> includeTags opts = [] \<or> tagSet s \<inter> set (includeTags opts) \<noteq> {}"
  by (auto simp: isIncluded_def truthy_tags_includes list_ex_iff)

lemma isNotExcluded_iff:
  "isNotExcluded opts s \<longleftrightarrow> tagSet s \<inter> set (excludeTags opts) = {}"
  by (auto simp: isNotExcluded_def truthy_tags_includes list_all_iff)

lemma shouldSkip_iff:
  "shouldSkip opts s \<longleftrightarrow> tagSet s \<inter> set (skipTags opts) \<noteq> {}"
  by (auto simp: shouldSkip_def truthy_tags_includes list_ex_iff)

lemma storyTest_explicit:
  "storyTest opts s =
     makeDescribe (name s)
       [ExpressionStatement
          (CallExpression
             (Identifier (if tagSet s \<inter> set (skipTags opts) \<noteq> {} then ''it.skip'' else ''it''))
             [StringLiteral (if ''play-fn'' \<in> tagSet s then ''play-test'' else ''smoke-test''),
              TestBody (StringLiteral (name s)) (StringLiteral (title s))
                (StringLiteral (id' s)) (Identifier (id' s))])]"
  by (simp add: storyTest_def makeTest_def testPrefixer_def shouldSkip_iff truthy_tags_includes)

lemma program_explicit:
  "program opts ss =
     Program [makeDescribe (title (ss ! 0)) (map (storyTest opts) (selected opts ss))]"
  by (simp add: program_def storyTests_def)

lemma group_output:
  assumes "titleIdToEntries toId idx = Inr t" "map_of t k = Some es" "storiesOf es \<noteq> []"
  shows "\<exists>out. transformPlaywrightJson toId generate opts idx = Inr out \<and>
           map_of out k =
             Some (generate (Program [makeDescribe (title (storiesOf es ! 0))
                                        (map (storyTest opts) (selected opts (storiesOf es)))]))"
  using transform_lookup [OF assms(1), of generate opts] assms(2,3)
  by (auto simp: program_explicit)

lemma in_storiesOf: "e \<in> set (storiesOf es) \<longleftrightarrow> e \<in> set es \<and> type' e \<noteq> Some Docs"
  by (auto simp: storiesOf_def)

lemma in_selected:
  "e \<in> set (selected opts ss) \<longleftrightarrow>
     e \<in> set ss \<and> isIncluded opts e \<and> tagSet e \<inter> set (excludeTags opts) = {}"
  by (auto simp: selected_def isNotExcluded_iff)

lemma buttonIndex_skipPlay_run:
  "transformPlaywrightJson sampleToId sampleGenerate skipPlay buttonIndex =
     Inr [(''button'',
       ''describe(<Button>,()=>{describe(<Primary>,()=>{it.skip(<play-test>,run(<Primary>,<Button>,<button--primary>,button--primary),);},);describe(<Secondary>,()=>{it(<smoke-test>,run(<Secondary>,<Button>,<button--secondary>,button--secondary),);},);describe(<Plain>,()=>{it(<smoke-test>,run(<Plain>,<Button>,<button--plain>,button--plain),);},);},);'')]"
proof -
  have sts: "storiesOf [primaryEntry, secondaryEntry, docsEntry, untaggedEntry]
               = [primaryEntry, secondaryEntry, untaggedEntry]"
    by (simp add: storiesOf_def primaryEntry_def secondaryEntry_def docsEntry_def untaggedEntry_def)
  have sel: "selected skipPlay [primaryEntry, secondaryEntry, untaggedEntry]
               = [primaryEntry, secondaryEntry, untaggedEntry]"
    by (simp add: selected_def isIncluded_def isNotExcluded_def skipPlay_def)
  have prog1: "program skipPlay [primaryEntry, secondaryEntry, untaggedEntry] =
       Program [makeDescribe (title primaryEntry)
                  (map (storyTest skipPlay) [primaryEntry, secondaryEntry, untaggedEntry])]"
    by (simp add: program_def storyTests_def sel)
  have prog: "sampleGenerate (program skipPlay [primaryEntry, secondaryEntry, untaggedEntry]) =
       ''describe(<Button>,()=>{describe(<Primary>,()=>{it.skip(<play-test>,run(<Primary>,<Button>,<button--primary>,button--primary),);},);describe(<Secondary>,()=>{it(<smoke-test>,run(<Secondary>,<Button>,<button--secondary>,button--secondary),);},);describe(<Plain>,()=>{it(<smoke-test>,run(<Plain>,<Button>,<button--plain>,button--plain),);},);},);''"
    unfolding prog1
    by (simp add: storyTest_explicit makeDescribe_def skipPlay_def
          primaryEntry_def secondaryEntry_def untaggedEntry_def)
  show ?thesis
    by (simp add: transform_Inr [OF buttonIndex_groups] testStep_def sts prog)
qed

subsection \<open>Claims\<close>

text \<open>
  C1 (as amended). A component group all of whose entries are removed by the docs filter
  produces no key in the mapping returned by \<open>transformPlaywrightJson\<close>: the run
  succeeds and the group's identifier is absent from the result.
\<close>

theorem C1_docs_only_group_omitted:
  assumes "titleIdToEntries toId idx = Inr t" "map_of t k = Some es"
    and "\<forall>e\<in>set es. type' e = Some Docs"
  shows "\<exists>out. transformPlaywrightJson toId generate opts idx = Inr out \<and> map_of out k = None"
proof -
  from assms(3) have "storiesOf es = []"
    by (simp add: storiesOf_def filter_empty_conv)
  with transform_lookup [OF assms(1), of generate opts] assms(2) show ?thesis
    by auto
qed

theorem C1_docs_only_group_omitted_witness:
  "titleIdToEntries sampleToId pageIndex =
     Inr [(''intro'', [\<lparr>id' = ''intro--page'', name = ''Page'', title = ''Intro'',
                 tags = Some [''play-fn''], type' = Some Docs\<rparr>])] \<and>
   (\<exists>out. transformPlaywrightJson sampleToId sampleGenerate noTags pageIndex = Inr out \<and>
          map_of out ''intro'' = None)"
  using C1_docs_only_group_omitted [OF pageIndex_groups, of "''intro''" _ sampleGenerate noTags]
    pageIndex_groups
  by simp

text \<open>
  C1 as stated fails: a group whose only story is removed by the exclude tags (so that
  nothing of the group survives the tag policy) still gets a key, bound to a program with
  an empty \<open>describe\<close> block. The guard \<open>stories.length\<close> is evaluated after the docs
  filter and before the tag filter.
\<close>

theorem C1_counterexample:
  "titleIdToEntries sampleToId
       (buttonIndex\<lparr>entries := Some [(''button--primary'', primaryEntry)]\<rparr>) =
     Inr [(''button'', [primaryEntry])] \<and>
   selected \<lparr>includeTags = [], excludeTags = [''play-fn''], skipTags = []\<rparr>
       (storiesOf [primaryEntry]) = [] \<and>
   transformPlaywrightJson sampleToId sampleGenerate
       \<lparr>includeTags = [], excludeTags = [''play-fn''], skipTags = []\<rparr>
       (buttonIndex\<lparr>entries := Some [(''button--primary'', primaryEntry)]\<rparr>) =
     Inr [(''button'', ''describe(<Button>,()=>{},);'')]"
  by (simp add: transformPlaywrightJson_def titleIdToEntries_def groupByTitleId_def groupStep_def
        Object_values_def buttonIndex_def primaryEntry_def sampleToId_Button
        sample_ids_not_inherited testStep_def storiesOf_def program_def storyTests_def
        selected_def isIncluded_def isNotExcluded_def truthy_def tags_includes_def
        makeDescribe_def)



text \<open>
  C3. In a version-3 index, a title group that consists of exactly one story whose name is
  the string "Page" is given the type \<open>docs\<close>, and the mapping a successful run returns
  has no key for it, whatever the story's tags and the tag options.
\<close>

theorem C3_v3_page_group_omitted:
  assumes "v idx = JNumber (SafeInt 3)" "stories idx = Some sts"
    and "filter (\<lambda>x. toId (title x) = Inr k) (Object_values sts) = [s]"
    and "name s = ''Page''"
    and "transformPlaywrightJson toId generate opts idx = Inr out"
  shows "\<exists>t. titleIdToEntries toId idx = Inr t \<and>
             map_of t k = Some [\<lparr>id' = id' s, name = name s, title = title s, tags = tags s,
                                  type' = Some Docs\<rparr>] \<and>
             map_of out k = None"
proof -
  from assms(5) obtain t where t: "titleIdToEntries toId idx = Inr t"
    by (auto simp: transformPlaywrightJson_def split: sum.splits)
  have grp: "map_of t k = Some [\<lparr>id' = id' s, name = name s, title = title s, tags = tags s,
                                  type' = Some Docs\<rparr>]"
    using titleIdToEntries_v3 [OF assms(1,2) t, of k] assms(3,4)
    by (simp add: isV3DocsOnly_def)
  have "storiesOf [\<lparr>id' = id' s, name = name s, title = title s, tags = tags s,
                     type' = Some Docs\<rparr>] = []"
    by (simp add: storiesOf_def)
  with transform_lookup [OF t, of generate opts] assms(5) grp have "map_of out k = None"
    by auto
  with t grp show ?thesis by blast
qed

theorem C3_v3_page_group_omitted_witness:
  "v pageIndex = JNumber (SafeInt 3) \<and> stories pageIndex = Some [(''intro--page'', pageStory)] \<and>
   filter (\<lambda>x. sampleToId (title x) = Inr ''intro'') (Object_values [(''intro--page'', pageStory)])
     = [pageStory] \<and>
   name pageStory = ''Page'' \<and>
   transformPlaywrightJson sampleToId sampleGenerate skipPlay pageIndex = Inr [] \<and>
   (\<exists>t. titleIdToEntries sampleToId pageIndex = Inr t \<and>
        map_of t ''intro'' = Some [\<lparr>id' = ''intro--page'', name = ''Page'', title = ''Intro'',
                                    tags = Some [''play-fn''], type' = Some Docs\<rparr>] \<and>
        map_of ([] :: string Record) ''intro'' = None)"
proof -
  have h1: "v pageIndex = JNumber (SafeInt 3)" by (simp add: pageIndex_def)
  have h2: "stories pageIndex = Some [(''intro--page'', pageStory)]" by (simp add: pageIndex_def)
  have h3: "filter (\<lambda>x. sampleToId (title x) = Inr ''intro'')
              (Object_values [(''intro--page'', pageStory)]) = [pageStory]"
    by (simp add: Object_values_def pageStory_def sampleToId_Intro)
  have h4: "name pageStory = ''Page''" by (simp add: pageStory_def)
  have h5: "transformPlaywrightJson sampleToId sampleGenerate skipPlay pageIndex = Inr []"
    by (simp add: transformPlaywrightJson_def pageIndex_groups testStep_def storiesOf_def)
  from C3_v3_page_group_omitted [OF h1 h2 h3 h4 h5] h1 h2 h3 h4 h5 show ?thesis
    by (simp add: pageStory_def)
qed

text \<open>
  C4. A non-docs entry one of whose tags is among the exclude tags is not among the
  stories from which the program of its group is built, also when it has one of the
  include tags: exclusion overrides inclusion.
\<close>

theorem C4_exclusion_overrides_inclusion:
  assumes "titleIdToEntries toId idx = Inr t" "map_of t k = Some es"
    and "e \<in> set es" "type' e \<noteq> Some Docs"
    and "tagSet e \<inter> set (excludeTags opts) \<noteq> {}"
  shows "\<exists>out. transformPlaywrightJson toId generate opts idx = Inr out \<and>
           map_of out k =
             Some (generate (Program [makeDescribe (title (storiesOf es ! 0))
                                        (map (storyTest opts) (selected opts (storiesOf es)))])) \<and>
           e \<notin> set (selected opts (storiesOf es))"
proof -
  from assms(3,4) have "storiesOf es \<noteq> []"
    by (auto simp: storiesOf_def filter_empty_conv)
  from group_output [OF assms(1,2) this, of generate opts] assms(5) show ?thesis
    by (auto simp: in_selected)
qed

theorem C4_exclusion_overrides_inclusion_witness:
  "titleIdToEntries sampleToId buttonIndex =
     Inr [(''button'', [primaryEntry, secondaryEntry, docsEntry, untaggedEntry])] \<and>
   type' primaryEntry \<noteq> Some Docs \<and>
   tagSet primaryEntry \<inter> set (includeTags excludePlay) \<noteq> {} \<and>
   tagSet primaryEntry \<inter> set (excludeTags excludePlay) \<noteq> {} \<and>
   (\<exists>out. transformPlaywrightJson sampleToId sampleGenerate excludePlay buttonIndex = Inr out \<and>
      map_of out ''button'' =
        Some (sampleGenerate
               (Program [makeDescribe (title (storiesOf [primaryEntry, secondaryEntry, docsEntry, untaggedEntry] ! 0))
                  (map (storyTest excludePlay)
                     (selected excludePlay (storiesOf [primaryEntry, secondaryEntry, docsEntry, untaggedEntry])))])) \<and>
      primaryEntry \<notin> set (selected excludePlay (storiesOf [primaryEntry, secondaryEntry, docsEntry, untaggedEntry])))"
proof -
  have h2: "map_of [(''button'', [primaryEntry, secondaryEntry, docsEntry, untaggedEntry])] ''button''
              = Some [primaryEntry, secondaryEntry, docsEntry, untaggedEntry]" by simp
  have h3: "primaryEntry \<in> set [primaryEntry, secondaryEntry, docsEntry, untaggedEntry]" by simp
  have h4: "type' primaryEntry \<noteq> Some Docs" by (simp add: primaryEntry_def)
  have h5: "tagSet primaryEntry \<inter> set (excludeTags excludePlay) \<noteq> {}"
    by (simp add: primaryEntry_def excludePlay_def)
  have h6: "tagSet primaryEntry \<inter> set (includeTags excludePlay) \<noteq> {}"
    by (simp add: primaryEntry_def excludePlay_def)
  from C4_exclusion_overrides_inclusion [OF buttonIndex_groups h2 h3 h4 h5, of sampleGenerate]
  show ?thesis using buttonIndex_groups h4 h5 h6 by simp
qed

text \<open>
  C5. A non-docs entry that passes inclusion and exclusion and has one of the skip tags
  still has its test case in the program of its group: the program is a \<open>describe\<close> call
  for the group whose block contains a \<open>describe\<close> call for the story, whose block is a
  single call of \<open>it.skip\<close>.
\<close>

theorem C5_skip_marks_but_keeps:
  assumes "titleIdToEntries toId idx = Inr t" "map_of t k = Some es"
    and "e \<in> set es" "type' e \<noteq> Some Docs"
    and "includeTags opts = [] \<or> tagSet e \<inter> set (includeTags opts) \<noteq> {}"
    and "tagSet e \<inter> set (excludeTags opts) = {}"
    and "tagSet e \<inter> set (skipTags opts) \<noteq> {}"
  shows "\<exists>out tests. transformPlaywrightJson toId generate opts idx = Inr out \<and>
           map_of out k =
             Some (generate
                    (Program
                       [ExpressionStatement
                          (CallExpression (Identifier ''describe'')
                             [StringLiteral (title (storiesOf es ! 0)),
                              ArrowFunctionExpression [] (BlockStatement tests)])])) \<and>
           ExpressionStatement
             (CallExpression (Identifier ''describe'')
                [StringLiteral (name e),
                 ArrowFunctionExpression []
                   (BlockStatement
                      [ExpressionStatement
                         (CallExpression (Identifier ''it.skip'')
                            [StringLiteral (if ''play-fn'' \<in> tagSet e
                                            then ''play-test'' else ''smoke-test''),
                             TestBody (StringLiteral (name e)) (StringLiteral (title e))
                               (StringLiteral (id' e)) (Identifier (id' e))])])])
             \<in> set tests"
proof -
  from assms(3,4) have st: "e \<in> set (storiesOf es)"
    by (simp add: in_storiesOf)
  then have ne: "storiesOf es \<noteq> []" by auto
  from st assms(5,6) have sel: "e \<in> set (selected opts (storiesOf es))"
    by (simp add: in_selected isIncluded_iff)
  have eq: "storyTest opts e =
             makeDescribe (name e)
             [ExpressionStatement
                (CallExpression (Identifier ''it.skip'')
                   [StringLiteral (if ''play-fn'' \<in> tagSet e then ''play-test'' else ''smoke-test''),
                    TestBody (StringLiteral (name e)) (StringLiteral (title e))
                      (StringLiteral (id' e)) (Identifier (id' e))])]"
    using assms(7) by (simp add: storyTest_explicit)
  have "storyTest opts e \<in> set (map (storyTest opts) (selected opts (storiesOf es)))"
    using sel by simp
  then have mem: "makeDescribe (name e)
             [ExpressionStatement
                (CallExpression (Identifier ''it.skip'')
                   [StringLiteral (if ''play-fn'' \<in> tagSet e then ''play-test'' else ''smoke-test''),
                    TestBody (StringLiteral (name e)) (StringLiteral (title e))
                      (StringLiteral (id' e)) (Identifier (id' e))])]
             \<in> set (map (storyTest opts) (selected opts (storiesOf es)))"
    by (simp only: eq)
  from group_output [OF assms(1,2) ne, of generate opts] obtain out
    where "transformPlaywrightJson toId generate opts idx = Inr out"
      and "map_of out k =
             Some (generate (Program [makeDescribe (title (storiesOf es ! 0))
                                        (map (storyTest opts) (selected opts (storiesOf es)))]))"
    by blast
  with mem show ?thesis
    unfolding makeDescribe_def by blast
qed

theorem C5_skip_marks_but_keeps_witness:
  "titleIdToEntries sampleToId buttonIndex =
     Inr [(''button'', [primaryEntry, secondaryEntry, docsEntry, untaggedEntry])] \<and>
   type' primaryEntry \<noteq> Some Docs \<and>
   includeTags skipPlay = [] \<and>
   tagSet primaryEntry \<inter> set (excludeTags skipPlay) = {} \<and>
   tagSet primaryEntry \<inter> set (skipTags skipPlay) \<noteq> {} \<and>
   transformPlaywrightJson sampleToId sampleGenerate skipPlay buttonIndex =
     Inr [(''button'',
       ''describe(<Button>,()=>{describe(<Primary>,()=>{it.skip(<play-test>,run(<Primary>,<Button>,<button--primary>,button--primary),);},);describe(<Secondary>,()=>{it(<smoke-test>,run(<Secondary>,<Button>,<button--secondary>,button--secondary),);},);describe(<Plain>,()=>{it(<smoke-test>,run(<Plain>,<Button>,<button--plain>,button--plain),);},);},);'')] \<and>
   (\<exists>out tests. transformPlaywrightJson sampleToId sampleGenerate skipPlay buttonIndex = Inr out \<and>
      map_of out ''button'' =
        Some (sampleGenerate
               (Program
                  [ExpressionStatement
                     (CallExpression (Identifier ''describe'')
                        [StringLiteral ''Button'',
                         ArrowFunctionExpression [] (BlockStatement tests)])])) \<and>
      ExpressionStatement
        (CallExpression (Identifier ''describe'')
           [StringLiteral ''Primary'',
            ArrowFunctionExpression []
              (BlockStatement
                 [ExpressionStatement
                    (CallExpression (Identifier ''it.skip'')
                       [StringLiteral ''play-test'',
                        TestBody (StringLiteral ''Primary'') (StringLiteral ''Button'')
                          (StringLiteral ''button--primary'') (Identifier ''button--primary'')])])])
        \<in> set tests)"
proof -
  have h2: "map_of [(''button'', [primaryEntry, secondaryEntry, docsEntry, untaggedEntry])] ''button''
              = Some [primaryEntry, secondaryEntry, docsEntry, untaggedEntry]" by simp
  have h3: "primaryEntry \<in> set [primaryEntry, secondaryEntry, docsEntry, untaggedEntry]" by simp
  have h4: "type' primaryEntry \<noteq> Some Docs" by (simp add: primaryEntry_def)
  have h5: "includeTags skipPlay = []" by (simp add: skipPlay_def)
  have h6: "tagSet primaryEntry \<inter> set (excludeTags skipPlay) = {}"
    by (simp add: primaryEntry_def skipPlay_def)
  have h7: "tagSet primaryEntry \<inter> set (skipTags skipPlay) \<noteq> {}"
    by (simp add: primaryEntry_def skipPlay_def)
  have first: "title (storiesOf [primaryEntry, secondaryEntry, docsEntry, untaggedEntry] ! 0) = ''Button''"
    by (simp add: storiesOf_def primaryEntry_def)
  have flds: "name primaryEntry = ''Primary''" "title primaryEntry = ''Button''"
    "id' primaryEntry = ''button--primary''" "''play-fn'' \<in> tagSet primaryEntry"
    by (simp_all add: primaryEntry_def)
  from C5_skip_marks_but_keeps [OF buttonIndex_groups h2 h3 h4 disjI1 [OF h5] h6 h7, of sampleGenerate]
  have "\<exists>out tests. transformPlaywrightJson sampleToId sampleGenerate skipPlay buttonIndex = Inr out \<and>
      map_of out ''button'' =
        Some (sampleGenerate
               (Program
                  [ExpressionStatement
                     (CallExpression (Identifier ''describe'')
                        [StringLiteral ''Button'',
                         ArrowFunctionExpression [] (BlockStatement tests)])])) \<and>
      ExpressionStatement
        (CallExpression (Identifier ''describe'')
           [StringLiteral ''Primary'',
            ArrowFunctionExpression []
              (BlockStatement
                 [ExpressionStatement
                    (CallExpression (Identifier ''it.skip'')
                       [StringLiteral ''play-test'',
                        TestBody (StringLiteral ''Primary'') (StringLiteral ''Button'')
                          (StringLiteral ''button--primary'') (Identifier ''button--primary'')])])])
        \<in> set tests"
    by (simp only: first flds if_True)
  with buttonIndex_groups h4 h5 h6 h7 buttonIndex_skipPlay_run show ?thesis
    by (intro conjI)
qed

text \<open>
  C6. Every program in the mapping of a successful run is the rendering of one
  \<open>describe\<close> block per selected story of its group, each holding a single test case:
  the case is named "play-test" when the story's tags contain "play-fn" and "smoke-test"
  otherwise, and its body holds the story's name, title and id as string literals.
\<close>

theorem C6_test_case_name_and_body:
  assumes "titleIdToEntries toId idx = Inr t"
  shows "\<exists>out. transformPlaywrightJson toId generate opts idx = Inr out \<and>
           (\<forall>k code. map_of out k = Some code \<longrightarrow>
              (\<exists>es. map_of t k = Some es \<and>
                 code = generate (Program [makeDescribe (title (storiesOf es ! 0))
                   (map (\<lambda>s. makeDescribe (name s)
                            [ExpressionStatement
                               (CallExpression
                                  (Identifier (if tagSet s \<inter> set (skipTags opts) \<noteq> {}
                                               then ''it.skip'' else ''it''))
                                  [StringLiteral (if ''play-fn'' \<in> tagSet s
                                                  then ''play-test'' else ''smoke-test''),
                                   TestBody (StringLiteral (name s)) (StringLiteral (title s))
                                     (StringLiteral (id' s)) (Identifier (id' s))])])
                        (selected opts (storiesOf es)))])))"
proof -
  from transform_lookup [OF assms, of generate opts] obtain out
    where run: "transformPlaywrightJson toId generate opts idx = Inr out"
      and look: "\<And>k. map_of out k =
             (case map_of t k of
                None \<Rightarrow> None
              | Some es \<Rightarrow> (if storiesOf es = [] then None
                            else Some (generate (program opts (storiesOf es)))))"
    by blast
  have "\<exists>es. map_of t k = Some es \<and>
          code = generate (Program [makeDescribe (title (storiesOf es ! 0))
                   (map (\<lambda>s. makeDescribe (name s)
                            [ExpressionStatement
                               (CallExpression
                                  (Identifier (if tagSet s \<inter> set (skipTags opts) \<noteq> {}
                                               then ''it.skip'' else ''it''))
                                  [StringLiteral (if ''play-fn'' \<in> tagSet s
                                                  then ''play-test'' else ''smoke-test''),
                                   TestBody (StringLiteral (name s)) (StringLiteral (title s))
                                     (StringLiteral (id' s)) (Identifier (id' s))])])
                        (selected opts (storiesOf es)))])"
    if "map_of out k = Some code" for k code
  proof -
    from that look [of k] obtain es where es: "map_of t k = Some es"
      and code: "code = generate (program opts (storiesOf es))"
      by (auto split: option.splits if_splits)
    have "map (storyTest opts) (selected opts (storiesOf es)) =
          map (\<lambda>s. makeDescribe (name s)
                            [ExpressionStatement
                               (CallExpression
                                  (Identifier (if tagSet s \<inter> set (skipTags opts) \<noteq> {}
                                               then ''it.skip'' else ''it''))
                                  [StringLiteral (if ''play-fn'' \<in> tagSet s
                                                  then ''play-test'' else ''smoke-test''),
                                   TestBody (StringLiteral (name s)) (StringLiteral (title s))
                                     (StringLiteral (id' s)) (Identifier (id' s))])])
              (selected opts (storiesOf es))"
      by (rule map_cong [OF refl]) (rule storyTest_explicit)
    with es code show ?thesis
      by (simp add: program_explicit)
  qed
  with run show ?thesis by blast
qed

theorem C6_test_case_name_and_body_witness:
  "titleIdToEntries sampleToId buttonIndex =
     Inr [(''button'', [primaryEntry, secondaryEntry, docsEntry, untaggedEntry])] \<and>
   transformPlaywrightJson sampleToId sampleGenerate noTags buttonIndex =
     Inr [(''button'',
       ''describe(<Button>,()=>{describe(<Primary>,()=>{it(<play-test>,run(<Primary>,<Button>,<button--primary>,button--primary),);},);describe(<Secondary>,()=>{it(<smoke-test>,run(<Secondary>,<Button>,<button--secondary>,button--secondary),);},);describe(<Plain>,()=>{it(<smoke-test>,run(<Plain>,<Button>,<button--plain>,button--plain),);},);},);'')]"
proof -
  from C6_test_case_name_and_body [OF buttonIndex_groups, of sampleGenerate noTags]
  obtain out where run: "transformPlaywrightJson sampleToId sampleGenerate noTags buttonIndex = Inr out"
    and all: "\<And>k code. map_of out k = Some code \<Longrightarrow>
       (\<exists>es. map_of [(''button'', [primaryEntry, secondaryEntry, docsEntry, untaggedEntry])] k = Some es \<and>
                 code = sampleGenerate (Program [makeDescribe (title (storiesOf es ! 0))
                   (map (\<lambda>s. makeDescribe (name s)
                            [ExpressionStatement
                               (CallExpression
                                  (Identifier (if tagSet s \<inter> set (skipTags noTags) \<noteq> {}
                                               then ''it.skip'' else ''it''))
                                  [StringLiteral (if ''play-fn'' \<in> tagSet s
                                                  then ''play-test'' else ''smoke-test''),
                                   TestBody (StringLiteral (name s)) (StringLiteral (title s))
                                     (StringLiteral (id' s)) (Identifier (id' s))])])
                        (selected noTags (storiesOf es)))]))"
    by blast
  have out: "out = foldl (testStep sampleGenerate noTags) []
                [(''button'', [primaryEntry, secondaryEntry, docsEntry, untaggedEntry])]"
    using run by (simp add: transform_Inr [OF buttonIndex_groups])
  have sts: "storiesOf [primaryEntry, secondaryEntry, docsEntry, untaggedEntry]
               = [primaryEntry, secondaryEntry, untaggedEntry]"
    by (simp add: storiesOf_def primaryEntry_def secondaryEntry_def docsEntry_def untaggedEntry_def)
  have sel: "selected noTags [primaryEntry, secondaryEntry, untaggedEntry]
               = [primaryEntry, secondaryEntry, untaggedEntry]"
    by (simp add: selected_def isIncluded_def isNotExcluded_def noTags_def)
  have keyed: "\<exists>code. out = [(''button'', code)]"
    by (simp add: out testStep_def sts)
  then obtain code where oc: "out = [(''button'', code)]" by blast
  from all [of "''button''" code] oc
  have "code = sampleGenerate (Program [makeDescribe (title ([primaryEntry, secondaryEntry, untaggedEntry] ! 0))
                   (map (\<lambda>s. makeDescribe (name s)
                            [ExpressionStatement
                               (CallExpression
                                  (Identifier (if tagSet s \<inter> set (skipTags noTags) \<noteq> {}
                                               then ''it.skip'' else ''it''))
                                  [StringLiteral (if ''play-fn'' \<in> tagSet s
                                                  then ''play-test'' else ''smoke-test''),
                                   TestBody (StringLiteral (name s)) (StringLiteral (title s))
                                     (StringLiteral (id' s)) (Identifier (id' s))])])
                        [primaryEntry, secondaryEntry, untaggedEntry])])"
    by (simp add: sts sel)
  then have "code = ''describe(<Button>,()=>{describe(<Primary>,()=>{it(<play-test>,run(<Primary>,<Button>,<button--primary>,button--primary),);},);describe(<Secondary>,()=>{it(<smoke-test>,run(<Secondary>,<Button>,<button--secondary>,button--secondary),);},);describe(<Plain>,()=>{it(<smoke-test>,run(<Plain>,<Button>,<button--plain>,button--plain),);},);},);''"
    by (simp add: makeDescribe_def noTags_def primaryEntry_def secondaryEntry_def untaggedEntry_def)
  with run oc buttonIndex_groups show ?thesis by simp
qed

text \<open>
  C7. For a non-docs entry the inclusion stage (\<open>isIncluded\<close>) holds exactly when the
  include tags are empty or one of them is among the entry's tags; and the entry is among
  the stories the program of its group is built from exactly when it passes this stage and
  has none of the exclude tags.
\<close>

theorem C7_inclusion_stage:
  assumes "titleIdToEntries toId idx = Inr t" "map_of t k = Some es"
    and "e \<in> set es" "type' e \<noteq> Some Docs"
  shows "(isIncluded opts e \<longleftrightarrow>
            includeTags opts = [] \<or> tagSet e \<inter> set (includeTags opts) \<noteq> {}) \<and>
         (\<exists>out. transformPlaywrightJson toId generate opts idx = Inr out \<and>
            map_of out k =
              Some (generate (Program [makeDescribe (title (storiesOf es ! 0))
                                         (map (storyTest opts) (selected opts (storiesOf es)))])) \<and>
            (e \<in> set (selected opts (storiesOf es)) \<longleftrightarrow>
               isIncluded opts e \<and> tagSet e \<inter> set (excludeTags opts) = {}))"
proof -
  from assms(3,4) have st: "e \<in> set (storiesOf es)"
    by (simp add: in_storiesOf)
  then have ne: "storiesOf es \<noteq> []" by auto
  from st have "e \<in> set (selected opts (storiesOf es)) \<longleftrightarrow>
               isIncluded opts e \<and> tagSet e \<inter> set (excludeTags opts) = {}"
    by (simp add: in_selected)
  with group_output [OF assms(1,2) ne, of generate opts] show ?thesis
    by (simp only: isIncluded_iff) blast
qed

theorem C7_inclusion_stage_witness:
  "titleIdToEntries sampleToId buttonIndex =
     Inr [(''button'', [primaryEntry, secondaryEntry, docsEntry, untaggedEntry])] \<and>
   type' secondaryEntry \<noteq> Some Docs \<and>
   includeTags excludePlay \<noteq> [] \<and> tagSet secondaryEntry \<inter> set (includeTags excludePlay) = {} \<and>
   \<not> isIncluded excludePlay secondaryEntry \<and> isIncluded noTags secondaryEntry \<and>
   (\<exists>out. transformPlaywrightJson sampleToId sampleGenerate excludePlay buttonIndex = Inr out \<and>
      map_of out ''button'' \<noteq> None \<and>
      secondaryEntry \<notin> set (selected excludePlay
                               (storiesOf [primaryEntry, secondaryEntry, docsEntry, untaggedEntry])))"
proof -
  have h2: "map_of [(''button'', [primaryEntry, secondaryEntry, docsEntry, untaggedEntry])] ''button''
              = Some [primaryEntry, secondaryEntry, docsEntry, untaggedEntry]" by simp
  have h3: "secondaryEntry \<in> set [primaryEntry, secondaryEntry, docsEntry, untaggedEntry]" by simp
  have h4: "type' secondaryEntry \<noteq> Some Docs" by (simp add: secondaryEntry_def)
  have a: "includeTags excludePlay \<noteq> []" "tagSet secondaryEntry \<inter> set (includeTags excludePlay) = {}"
    by (simp_all add: excludePlay_def secondaryEntry_def)
  have b: "includeTags noTags = []" by (simp add: noTags_def)
  from C7_inclusion_stage [OF buttonIndex_groups h2 h3 h4, of excludePlay sampleGenerate]
       C7_inclusion_stage [OF buttonIndex_groups h2 h3 h4, of noTags sampleGenerate]
  show ?thesis using buttonIndex_groups h4 a b by auto
qed

text \<open>
  C8. In a version-4 index an entry of type \<open>docs\<close> is never among the stories the program
  of its group is built from; the group's key is bound to the program of the remaining
  stories, or is absent when no entry of the group is a story.
\<close>

theorem C8_v4_docs_entry_has_no_test:
  assumes "v idx = JNumber (SafeInt 4)" "entries idx = Some ents"
    and "e \<in> set (Object_values ents)" "type' e = Some Docs" "toId (title e) = Inr k"
    and "grp = filter (\<lambda>x. toId (title x) = Inr k) (Object_values ents)"
    and "transformPlaywrightJson toId generate opts idx = Inr out"
  shows "e \<in> set grp \<and> e \<notin> set (selected opts (storiesOf grp)) \<and>
         map_of out k =
           (if storiesOf grp = [] then None
            else Some (generate (Program [makeDescribe (title (storiesOf grp ! 0))
                                            (map (storyTest opts) (selected opts (storiesOf grp)))])))"
proof -
  from assms(7) obtain t where t: "titleIdToEntries toId idx = Inr t"
    by (auto simp: transformPlaywrightJson_def split: sum.splits)
  from assms(3,5,6) have mem: "e \<in> set grp" by simp
  then have "grp \<noteq> []" by auto
  with titleIdToEntries_v4 [OF assms(1,2) t, of k] assms(6) have g: "map_of t k = Some grp"
    by simp
  from assms(4) have "e \<notin> set (selected opts (storiesOf grp))"
    by (simp add: in_selected in_storiesOf)
  with transform_lookup [OF t, of generate opts] assms(7) g mem show ?thesis
    by (auto simp: program_explicit)
qed

theorem C8_v4_docs_entry_has_no_test_witness:
  "v buttonIndex = JNumber (SafeInt 4) \<and> docsEntry \<in> set (map snd (the (entries buttonIndex))) \<and>
   type' docsEntry = Some Docs \<and> sampleToId (title docsEntry) = Inr ''button'' \<and>
   filter (\<lambda>x. sampleToId (title x) = Inr ''button'') (map snd (the (entries buttonIndex)))
     = [primaryEntry, secondaryEntry, docsEntry, untaggedEntry] \<and>
   storiesOf [primaryEntry, secondaryEntry, docsEntry, untaggedEntry]
     = [primaryEntry, secondaryEntry, untaggedEntry] \<and>
   selected noTags [primaryEntry, secondaryEntry, untaggedEntry]
     = [primaryEntry, secondaryEntry, untaggedEntry] \<and>
   docsEntry \<notin> set [primaryEntry, secondaryEntry, untaggedEntry] \<and>
   (\<exists>out. transformPlaywrightJson sampleToId sampleGenerate noTags buttonIndex = Inr out \<and>
      map_of out ''button'' =
        Some (sampleGenerate (Program [makeDescribe ''Button''
                (map (storyTest noTags) [primaryEntry, secondaryEntry, untaggedEntry])])))"
proof -
  let ?ents = "[(''button--primary'', primaryEntry), (''button--secondary'', secondaryEntry),
                (''button--docs'', docsEntry), (''button--plain'', untaggedEntry)]"
  have h1: "v buttonIndex = JNumber (SafeInt 4)" by (simp add: buttonIndex_def)
  have h2: "entries buttonIndex = Some ?ents" by (simp add: buttonIndex_def)
  have h3: "docsEntry \<in> set (Object_values ?ents)" by (simp add: Object_values_def)
  have h4: "type' docsEntry = Some Docs" by (simp add: docsEntry_def)
  have h5: "sampleToId (title docsEntry) = Inr ''button''"
    by (simp add: docsEntry_def sampleToId_Button)
  have h6: "[primaryEntry, secondaryEntry, docsEntry, untaggedEntry]
              = filter (\<lambda>x. sampleToId (title x) = Inr ''button'') (Object_values ?ents)"
    by (simp add: Object_values_def primaryEntry_def secondaryEntry_def docsEntry_def
          untaggedEntry_def sampleToId_Button)
  have h7: "transformPlaywrightJson sampleToId sampleGenerate noTags buttonIndex =
              Inr (foldl (testStep sampleGenerate noTags) []
                     [(''button'', [primaryEntry, secondaryEntry, docsEntry, untaggedEntry])])"
    by (rule transform_Inr [OF buttonIndex_groups])
  have sts: "storiesOf [primaryEntry, secondaryEntry, docsEntry, untaggedEntry]
               = [primaryEntry, secondaryEntry, untaggedEntry]"
    by (simp add: storiesOf_def primaryEntry_def secondaryEntry_def docsEntry_def untaggedEntry_def)
  have sel: "selected noTags [primaryEntry, secondaryEntry, untaggedEntry]
               = [primaryEntry, secondaryEntry, untaggedEntry]"
    by (simp add: selected_def isIncluded_def isNotExcluded_def noTags_def)
  have notin: "docsEntry \<notin> set [primaryEntry, secondaryEntry, untaggedEntry]"
    by (simp add: primaryEntry_def secondaryEntry_def docsEntry_def untaggedEntry_def)
  have ttl: "title primaryEntry = ''Button''" by (simp add: primaryEntry_def)
  from C8_v4_docs_entry_has_no_test [OF h1 h2 h3 h4 h5 h6 h7]
  show ?thesis using h1 h2 h4 h5 h6 [symmetric] h7 sts sel notin
    by (simp add: Object_values_def ttl)
qed



text \<open>
  C10. A non-docs entry whose \<open>tags\<close> field is absent is handled as an entry with an empty
  tag array: the run raises no error for it, the entry is selected exactly when the include
  tags are empty, it is never excluded and never skip-marked, and its test case is an
  \<open>it\<close> call named "smoke-test" inside the story's \<open>describe\<close> block.
\<close>

theorem C10_absent_tags_as_empty:
  assumes "titleIdToEntries toId idx = Inr t" "map_of t k = Some es"
    and "e \<in> set es" "type' e \<noteq> Some Docs" "tags e = None"
  shows "(\<exists>out. transformPlaywrightJson toId generate opts idx = Inr out \<and>
            map_of out k =
              Some (generate
                     (Program
                        [ExpressionStatement
                           (CallExpression (Identifier ''describe'')
                              [StringLiteral (title (storiesOf es ! 0)),
                               ArrowFunctionExpression []
                                 (BlockStatement
                                    (map (storyTest opts) (selected opts (storiesOf es))))])]))) \<and>
         (e \<in> set (selected opts (storiesOf es)) \<longleftrightarrow> includeTags opts = []) \<and>
         (isIncluded opts e \<longleftrightarrow> includeTags opts = []) \<and>
         isNotExcluded opts e \<and> \<not> shouldSkip opts e \<and>
         storyTest opts e =
           ExpressionStatement
             (CallExpression (Identifier ''describe'')
                [StringLiteral (name e),
                 ArrowFunctionExpression []
                   (BlockStatement
                      [ExpressionStatement
                         (CallExpression (Identifier ''it'')
                            [StringLiteral ''smoke-test'',
                             TestBody (StringLiteral (name e)) (StringLiteral (title e))
                               (StringLiteral (id' e)) (Identifier (id' e))])])]) \<and>
         isIncluded opts e = isIncluded opts (e\<lparr>tags := Some []\<rparr>) \<and>
         isNotExcluded opts e = isNotExcluded opts (e\<lparr>tags := Some []\<rparr>) \<and>
         shouldSkip opts e = shouldSkip opts (e\<lparr>tags := Some []\<rparr>) \<and>
         storyTest opts e = storyTest opts (e\<lparr>tags := Some []\<rparr>)"
proof -
  from assms(3,4) have st: "e \<in> set (storiesOf es)"
    by (simp add: in_storiesOf)
  then have ne: "storiesOf es \<noteq> []" by auto
  have inc: "isIncluded opts e \<longleftrightarrow> includeTags opts = []"
    using assms(5) by (simp add: isIncluded_iff)
  have exc: "isNotExcluded opts e"
    using assms(5) by (simp add: isNotExcluded_iff)
  have skp: "\<not> shouldSkip opts e"
    using assms(5) by (simp add: shouldSkip_iff)
  have sel: "e \<in> set (selected opts (storiesOf es)) \<longleftrightarrow> includeTags opts = []"
    using st inc assms(5) by (simp add: in_selected)
  have tst: "storyTest opts e =
           ExpressionStatement
             (CallExpression (Identifier ''describe'')
                [StringLiteral (name e),
                 ArrowFunctionExpression []
                   (BlockStatement
                      [ExpressionStatement
                         (CallExpression (Identifier ''it'')
                            [StringLiteral ''smoke-test'',
                             TestBody (StringLiteral (name e)) (StringLiteral (title e))
                               (StringLiteral (id' e)) (Identifier (id' e))])])])"
    using assms(5) by (simp add: storyTest_explicit makeDescribe_def)
  have same: "isIncluded opts e = isIncluded opts (e\<lparr>tags := Some []\<rparr>)"
    "isNotExcluded opts e = isNotExcluded opts (e\<lparr>tags := Some []\<rparr>)"
    "shouldSkip opts e = shouldSkip opts (e\<lparr>tags := Some []\<rparr>)"
    "storyTest opts e = storyTest opts (e\<lparr>tags := Some []\<rparr>)"
    using assms(5)
    by (simp_all add: isIncluded_iff isNotExcluded_iff shouldSkip_iff storyTest_explicit)
  have out: "\<exists>out. transformPlaywrightJson toId generate opts idx = Inr out \<and>
            map_of out k =
              Some (generate
                     (Program
                        [ExpressionStatement
                           (CallExpression (Identifier ''describe'')
                              [StringLiteral (title (storiesOf es ! 0)),
                               ArrowFunctionExpression []
                                 (BlockStatement
                                    (map (storyTest opts) (selected opts (storiesOf es))))])]))"
    using group_output [OF assms(1,2) ne, of generate opts]
    unfolding makeDescribe_def .
  from out inc exc skp sel tst same show ?thesis
    by (intro conjI)
qed

theorem C10_absent_tags_as_empty_witness:
  "titleIdToEntries sampleToId buttonIndex =
     Inr [(''button'', [primaryEntry, secondaryEntry, docsEntry, untaggedEntry])] \<and>
   type' untaggedEntry \<noteq> Some Docs \<and> tags untaggedEntry = None \<and>
   transformPlaywrightJson sampleToId sampleGenerate skipPlay buttonIndex =
     Inr [(''button'',
       ''describe(<Button>,()=>{describe(<Primary>,()=>{it.skip(<play-test>,run(<Primary>,<Button>,<button--primary>,button--primary),);},);describe(<Secondary>,()=>{it(<smoke-test>,run(<Secondary>,<Button>,<button--secondary>,button--secondary),);},);describe(<Plain>,()=>{it(<smoke-test>,run(<Plain>,<Button>,<button--plain>,button--plain),);},);},);'')] \<and>
   untaggedEntry \<in> set (selected skipPlay (storiesOf [primaryEntry, secondaryEntry, docsEntry, untaggedEntry])) \<and>
   storyTest skipPlay untaggedEntry =
     ExpressionStatement
       (CallExpression (Identifier ''describe'')
          [StringLiteral ''Plain'',
           ArrowFunctionExpression []
             (BlockStatement
                [ExpressionStatement
                   (CallExpression (Identifier ''it'')
                      [StringLiteral ''smoke-test'',
                       TestBody (StringLiteral ''Plain'') (StringLiteral ''Button'')
                         (StringLiteral ''button--plain'') (Identifier ''button--plain'')])])])"
proof -
  have h2: "map_of [(''button'', [primaryEntry, secondaryEntry, docsEntry, untaggedEntry])] ''button''
              = Some [primaryEntry, secondaryEntry, docsEntry, untaggedEntry]" by simp
  have h3: "untaggedEntry \<in> set [primaryEntry, secondaryEntry, docsEntry, untaggedEntry]" by simp
  have h4: "type' untaggedEntry \<noteq> Some Docs" by (simp add: untaggedEntry_def)
  have h5: "tags untaggedEntry = None" by (simp add: untaggedEntry_def)
  have inc: "includeTags skipPlay = []" by (simp add: skipPlay_def)
  have flds: "name untaggedEntry = ''Plain''" "title untaggedEntry = ''Button''"
    "id' untaggedEntry = ''button--plain''"
    by (simp_all add: untaggedEntry_def)
  from C10_absent_tags_as_empty [OF buttonIndex_groups h2 h3 h4 h5, of sampleGenerate skipPlay]
  have "untaggedEntry \<in> set (selected skipPlay (storiesOf [primaryEntry, secondaryEntry, docsEntry, untaggedEntry]))"
    and "storyTest skipPlay untaggedEntry =
     ExpressionStatement
       (CallExpression (Identifier ''describe'')
          [StringLiteral ''Plain'',
           ArrowFunctionExpression []
             (BlockStatement
                [ExpressionStatement
                   (CallExpression (Identifier ''it'')
                      [StringLiteral ''smoke-test'',
                       TestBody (StringLiteral ''Plain'') (StringLiteral ''Button'')
                         (StringLiteral ''button--plain'') (Identifier ''button--plain'')])])])"
    by (simp_all only: inc flds simp_thms)
  with buttonIndex_groups h4 h5 buttonIndex_skipPlay_run show ?thesis
    by (intro conjI)
qed

end
